theory Spec2Isabelle
  imports Complex_Main
begin

section \<open>Regular expressions of the validator\<close>

text \<open>
  The two patterns of \<open>isValidIP\<close> use character classes, literals, alternation,
  sequencing and bounded repetition (\<open>?\<close>, \<open>{n}\<close>, \<open>{m,n}\<close>); every alternative
  is anchored by \<open>^\<close> and \<open>$\<close> and no flag is set, so \<open>test\<close> accepts a string
  exactly when the whole string matches one alternative. A string is the list of its
  characters; the patterns name ASCII characters only, so any other character fails
  every class and literal.
\<close>

datatype regex =
    Lit char                \<comment> \<open>one given character\<close>
  | Range char char         \<comment> \<open>a class range such as \<open>0-9\<close>\<close>
  | Alt regex regex         \<comment> \<open>\<open>r|s\<close>, and the union inside a class\<close>
  | Seq regex regex         \<comment> \<open>\<open>rs\<close>\<close>
  | Rep nat nat regex       \<comment> \<open>\<open>r{lo,hi}\<close>\<close>

text \<open>
  \<open>reps f lo hi s\<close>: the rests of \<open>s\<close> after between \<open>lo\<close> and \<open>hi\<close> consecutive
  matches of the pattern whose one-step matcher is \<open>f\<close>.
\<close>

primrec reps :: "(string \<Rightarrow> string list) \<Rightarrow> nat \<Rightarrow> nat \<Rightarrow> string \<Rightarrow> string list" where
  "reps f lo 0 s = (if lo = 0 then [s] else [])"
| "reps f lo (Suc hi) s =
     (if lo = 0 then [s] else []) @ concat (map (reps f (lo - 1) hi) (f s))"

text \<open>\<open>matches r s\<close>: every rest of \<open>s\<close> left after a prefix of \<open>s\<close> that matches \<open>r\<close>.\<close>

primrec matches :: "regex \<Rightarrow> string \<Rightarrow> string list" where
  "matches (Lit c) = (\<lambda>s. case s of [] \<Rightarrow> [] | x # xs \<Rightarrow> if x = c then [xs] else [])"
| "matches (Range lo hi) =
     (\<lambda>s. case s of [] \<Rightarrow> []
        | x # xs \<Rightarrow>
            if (of_char lo :: nat) \<le> of_char x \<and> (of_char x :: nat) \<le> of_char hi
            then [xs] else [])"
| "matches (Alt r1 r2) = (\<lambda>s. matches r1 s @ matches r2 s)"
| "matches (Seq r1 r2) = (\<lambda>s. concat (map (matches r2) (matches r1 s)))"
| "matches (Rep lo hi r) = reps (matches r) lo hi"

text \<open>\<open>/^r$/.test(s)\<close>\<close>

definition test :: "regex \<Rightarrow> string \<Rightarrow> bool" where
  "test r s = ([] \<in> set (matches r s))"

definition opt :: "regex \<Rightarrow> regex" where
  "opt r = Rep 0 1 r"

section \<open>The validator\<close>

text \<open>\<open>25[0-5]|2[0-4][0-9]|[01]?[0-9][0-9]?\<close>\<close>

definition octet :: regex where
  "octet =
     Alt (Seq (Lit CHR ''2'') (Seq (Lit CHR ''5'') (Range CHR ''0'' CHR ''5'')))
    (Alt (Seq (Lit CHR ''2'') (Seq (Range CHR ''0'' CHR ''4'') (Range CHR ''0'' CHR ''9'')))
         (Seq (opt (Alt (Lit CHR ''0'') (Lit CHR ''1'')))
              (Seq (Range CHR ''0'' CHR ''9'') (opt (Range CHR ''0'' CHR ''9'')))))"

text \<open>\<open>^(?:(?:octet)\.){3}(?:octet)$\<close>\<close>

definition ipv4Regex :: regex where
  "ipv4Regex = Seq (Rep 3 3 (Seq octet (Lit CHR ''.''))) octet"

text \<open>\<open>[0-9a-fA-F]\<close>, \<open>[0-9a-fA-F]{1,4}\<close> and \<open>[0-9a-fA-F]{1,4}:\<close>\<close>

definition hexdigit :: regex where
  "hexdigit =
     Alt (Range CHR ''0'' CHR ''9'') (Alt (Range CHR ''a'' CHR ''f'') (Range CHR ''A'' CHR ''F''))"

definition hextet :: regex where
  "hextet = Rep 1 4 hexdigit"

definition hextet_colon :: regex where
  "hextet_colon = Seq hextet (Lit CHR '':'')"

text \<open>
  The four alternatives of \<open>ipv6Regex\<close>, in the order of the source:
  \<^item> \<open>^(?:h:){7}h$\<close>
  \<^item> \<open>^::(?:h:){0,6}h$\<close>
  \<^item> \<open>^(?:h:){1,7}:$\<close>
  \<^item> \<open>^(?:h:){0,6}::(?:h:){0,5}h$\<close>
\<close>

definition ipv6_full :: regex where
  "ipv6_full = Seq (Rep 7 7 hextet_colon) hextet"

definition ipv6_leading :: regex where
  "ipv6_leading =
     Seq (Lit CHR '':'') (Seq (Lit CHR '':'') (Seq (Rep 0 6 hextet_colon) hextet))"

definition ipv6_trailing :: regex where
  "ipv6_trailing = Seq (Rep 1 7 hextet_colon) (Lit CHR '':'')"

definition ipv6_middle :: regex where
  "ipv6_middle =
     Seq (Rep 0 6 hextet_colon)
         (Seq (Lit CHR '':'') (Seq (Lit CHR '':'') (Seq (Rep 0 5 hextet_colon) hextet)))"

definition ipv6Regex :: regex where
  "ipv6Regex = Alt ipv6_full (Alt ipv6_leading (Alt ipv6_trailing ipv6_middle))"

definition isValidIP :: "string \<Rightarrow> bool" where
  "isValidIP ip = (test ipv4Regex ip \<or> test ipv6Regex ip)"

section \<open>Values, errors and the platform\<close>

text \<open>
  A decoded JSON number is a double. The handlers only copy numbers, test them for
  truthiness and print them, so a number is kept as its exact value; \<open>-0\<close> and the
  infinities (the results of decoding \<open>-0\<close> and \<open>1e999\<close>) are values of their own.
\<close>

datatype jsnum = Finite rat | NegZero | PosInfinity | NegInfinity

text \<open>
  The values the handlers see and build: decoded JSON, and \<open>undefined\<close>, the result of
  reading a property an object does not have. \<open>JObj\<close> lists an object's own properties
  in insertion order, each key once.
\<close>

datatype jsval =
    JUndefined
  | JNull
  | JBool bool
  | JNum jsnum
  | JStr string
  | JArr "jsval list"
  | JObj "(string \<times> jsval) list"

text \<open>A thrown value: an error object with its \<open>name\<close> and its \<open>message\<close>.\<close>

datatype js_error = Thrown (name: string) (message: string)

text \<open>\<open>new Error(msg)\<close>\<close>

definition Error :: "string \<Rightarrow> js_error" where
  "Error msg = Thrown ''Error'' msg"

text \<open>
  What the runtime supplies and the source does not fix: the clock, the printing of
  numbers, the text of the TypeError raised by reading a property of \<open>null\<close> or
  \<open>undefined\<close>, the text of the TypeError raised when an object has no string
  conversion, and \<open>toLocaleString('en-US', {timeZone: tz})\<close> of the current date, which
  throws a RangeError on a time zone it does not know.
\<close>

record platform =
  now_iso :: string
  number_to_string :: "jsnum \<Rightarrow> string"
  null_read_message :: "string \<Rightarrow> string"
  to_primitive_message :: string
  to_locale_string :: "jsval \<Rightarrow> js_error + string"

text \<open>
  A response of \<open>fetch\<close>: its status code and the outcome of \<open>response.json()\<close>, which
  rejects when the body is not JSON. \<open>fetch\<close> itself rejects on a network failure.
\<close>

record http_response =
  status :: nat
  json :: "js_error + jsval"

datatype fetch_result = Rejected js_error | Resolved http_response

text \<open>\<open>response.ok\<close>: the status is in the range 200 to 299.\<close>

definition ok :: "http_response \<Rightarrow> bool" where
  "ok response = (200 \<le> status response \<and> status response \<le> 299)"

text \<open>Truthiness, as \<open>||\<close> tests it.\<close>

fun truthy :: "jsval \<Rightarrow> bool" where
  "truthy JUndefined = False"
| "truthy JNull = False"
| "truthy (JBool b) = b"
| "truthy (JNum (Finite q)) = (q \<noteq> 0)"
| "truthy (JNum NegZero) = False"
| "truthy (JNum PosInfinity) = True"
| "truthy (JNum NegInfinity) = True"
| "truthy (JStr s) = (s \<noteq> [])"
| "truthy (JArr vs) = True"
| "truthy (JObj kvs) = True"

text \<open>\<open>a || b\<close>\<close>

definition js_or :: "jsval \<Rightarrow> jsval \<Rightarrow> jsval" where
  "js_or a b = (if truthy a then a else b)"

fun join :: "string \<Rightarrow> string list \<Rightarrow> string" where
  "join sep [] = []"
| "join sep [x] = x"
| "join sep (x # y # ys) = x @ sep @ join sep (y # ys)"

text \<open>
  \<open>data.k\<close>, for the property names the source reads (none of them is a built-in
  property of a string, a number, a boolean or an array): a TypeError on \<open>null\<close> and
  \<open>undefined\<close>, the property's value on an object that has it, \<open>undefined\<close> otherwise.
\<close>

fun get :: "platform \<Rightarrow> jsval \<Rightarrow> string \<Rightarrow> js_error + jsval" where
  "get pf JNull k = Inl (Thrown ''TypeError'' (null_read_message pf k))"
| "get pf JUndefined k = Inl (Thrown ''TypeError'' (null_read_message pf k))"
| "get pf (JObj kvs) k = Inr (case map_of kvs k of None \<Rightarrow> JUndefined | Some v \<Rightarrow> v)"
| "get pf v k = Inr JUndefined"

text \<open>Sequencing of computations that may throw.\<close>

definition and_then :: "js_error + 'a \<Rightarrow> ('a \<Rightarrow> js_error + 'b) \<Rightarrow> js_error + 'b" where
  "and_then m f = (case m of Inl e \<Rightarrow> Inl e | Inr v \<Rightarrow> f v)"

text \<open>The values of a list of computations, in order, or the first error thrown.\<close>

fun collect :: "(js_error + 'a) list \<Rightarrow> js_error + 'a list" where
  "collect [] = Inr []"
| "collect (m # ms) = and_then m (\<lambda>v. and_then (collect ms) (\<lambda>vs. Inr (v # vs)))"

text \<open>
  The string of a value (the operation ToString), as a template literal and
  \<open>new Error(v)\<close> apply it. An array is its elements joined by commas, \<open>null\<close> and
  \<open>undefined\<close> elements left empty. A decoded object with no property \<open>toString\<close> of
  its own inherits the conversion to \<open>[object Object]\<close>; one that has such a property
  (a decoded value, so not a function) has no conversion, and ToString throws a
  TypeError.
\<close>

fun to_string :: "platform \<Rightarrow> jsval \<Rightarrow> js_error + string" where
  "to_string pf JUndefined = Inr ''undefined''"
| "to_string pf JNull = Inr ''null''"
| "to_string pf (JBool b) = Inr (if b then ''true'' else ''false'')"
| "to_string pf (JNum n) = Inr (number_to_string pf n)"
| "to_string pf (JStr s) = Inr s"
| "to_string pf (JArr vs) =
     and_then
       (collect (map (\<lambda>v. if v = JNull \<or> v = JUndefined then Inr [] else to_string pf v) vs))
       (\<lambda>parts. Inr (join '','' parts))"
| "to_string pf (JObj kvs) =
     (if map_of kvs ''toString'' \<noteq> None
      then Inl (Thrown ''TypeError'' (to_primitive_message pf))
      else Inr ''[object Object]'')"

text \<open>
  An object literal \<open>{k1: e1, k2: e2, ...}\<close>: the property values are evaluated in
  order, and the first one that throws ends the evaluation.
\<close>

fun props :: "(string \<times> (js_error + jsval)) list \<Rightarrow> js_error + (string \<times> jsval) list" where
  "props [] = Inr []"
| "props ((k, m) # rest) =
     and_then m (\<lambda>v. and_then (props rest) (\<lambda>kvs. Inr ((k, v) # kvs)))"

definition obj :: "(string \<times> (js_error + jsval)) list \<Rightarrow> js_error + jsval" where
  "obj fs = and_then (props fs) (\<lambda>kvs. Inr (JObj kvs))"

text \<open>A string literal as a property value.\<close>

definition str :: "string \<Rightarrow> js_error + jsval" where
  "str s = Inr (JStr s)"

text \<open>The decimal digits of a number, as a template literal prints a status code.\<close>

fun decimal :: "nat \<Rightarrow> string" where
  "decimal n =
     (if n < 10 then [char_of (48 + n)] else decimal (n div 10) @ [char_of (48 + n mod 10)])"

declare decimal.simps [simp del]

section \<open>Effects\<close>

text \<open>
  A computation of a handler: the URLs it requested with \<open>fetch\<close>, in order, and its
  value or the error it threw.
\<close>

type_synonym 'a io = "string list \<times> (js_error + 'a)"

definition io_throw :: "js_error \<Rightarrow> 'a io" where
  "io_throw e = ([], Inl e)"

definition io_lift :: "js_error + 'a \<Rightarrow> 'a io" where
  "io_lift m = ([], m)"

definition io_bind :: "'a io \<Rightarrow> ('a \<Rightarrow> 'b io) \<Rightarrow> 'b io" where
  "io_bind m f =
     (case m of
        (urls, Inl e) \<Rightarrow> (urls, Inl e)
      | (urls, Inr v) \<Rightarrow> (case f v of (urls', r) \<Rightarrow> (urls @ urls', r)))"

text \<open>\<open>try { m } catch (err) { h err }\<close>\<close>

definition io_catch :: "'a io \<Rightarrow> (js_error \<Rightarrow> 'a io) \<Rightarrow> 'a io" where
  "io_catch m h =
     (case m of
        (urls, Inl e) \<Rightarrow> (case h e of (urls', r) \<Rightarrow> (urls @ urls', r))
      | (urls, Inr v) \<Rightarrow> (urls, Inr v))"

section \<open>The upstream client\<close>

definition defaultFields :: string where
  "defaultFields =
     ''status,message,country,countryCode,region,regionName,city,zip,lat,lon,timezone,isp,org,as,query''"

text \<open>The request URL, for the optional parameter \<open>fields\<close> given or left out.\<close>

definition request_url :: "string \<Rightarrow> string option \<Rightarrow> string" where
  "request_url ip field_list =
     ''http://ip-api.com/json/'' @ ip @ ''?fields='' @
     (case field_list of
        None \<Rightarrow> defaultFields
      | Some f \<Rightarrow> if f = [] then defaultFields else f)"

text \<open>\<open>net url\<close> is how the network answers the request of \<open>url\<close>.\<close>

definition fetchIPData ::
  "platform \<Rightarrow> (string \<Rightarrow> fetch_result) \<Rightarrow> string \<Rightarrow> string option \<Rightarrow> jsval io" where
  "fetchIPData pf net ip field_list =
     (let url = request_url ip field_list
      in ([url],
          case net url of
            Rejected e \<Rightarrow> Inl e
          | Resolved response \<Rightarrow>
              if \<not> ok response
              then Inl (Error (''API error: '' @ decimal (status response)))
              else
                and_then (json response) (\<lambda>data.
                and_then (get pf data ''status'') (\<lambda>st.
                  if st = JStr ''fail''
                  then and_then (get pf data ''message'') (\<lambda>msg.
                       and_then (to_string pf (js_or msg (JStr ''Invalid IP address'')))
                         (\<lambda>msg_text. Inl (Error msg_text)))
                  else Inr data))))"

section \<open>The entrypoints\<close>

text \<open>The key and the price of each entrypoint, in the order of registration.\<close>

definition entrypoint_prices :: "(string \<times> nat) list" where
  "entrypoint_prices =
     [(''overview'', 0), (''lookup'', 1000), (''bulk'', 3000),
      (''geolocate'', 2000), (''timezone'', 1000), (''isp-info'', 2000)]"

definition price_amount :: "string \<Rightarrow> nat option" where
  "price_amount k = map_of entrypoint_prices k"

definition overview_handler :: "platform \<Rightarrow> (string \<Rightarrow> fetch_result) \<Rightarrow> jsval io" where
  "overview_handler pf net =
     io_bind (fetchIPData pf net ''8.8.8.8'' None) (\<lambda>sample.
     io_lift (obj
       [(''output'', obj
          [(''service'', str ''IP Intelligence Agent''),
           (''description'', str ''Real-time IP geolocation, ISP info, and timezone data''),
           (''dataSource'', str ''ip-api.com (live)''),
           (''sampleLookup'', obj
              [(''ip'', get pf sample ''query''),
               (''country'', get pf sample ''country''),
               (''city'', get pf sample ''city''),
               (''isp'', get pf sample ''isp'')]),
           (''endpoints'', obj
              [(''lookup'', str ''Single IP lookup - $0.001''),
               (''bulk'', str ''Bulk IP lookup (up to 10) - $0.003''),
               (''geolocate'', str ''Detailed geolocation - $0.002''),
               (''timezone'', str ''Timezone info - $0.001''),
               (''isp-info'', str ''ISP/Organization details - $0.002'')]),
           (''fetchedAt'', str (now_iso pf))])]))"

definition lookup_handler ::
  "platform \<Rightarrow> (string \<Rightarrow> fetch_result) \<Rightarrow> string \<Rightarrow> jsval io" where
  "lookup_handler pf net ip =
     (if \<not> isValidIP ip then io_throw (Error ''Invalid IP address format'')
      else
        io_bind (fetchIPData pf net ip None) (\<lambda>data.
        io_lift (obj
          [(''output'', obj
             [(''ip'', get pf data ''query''),
              (''country'', get pf data ''country''),
              (''countryCode'', get pf data ''countryCode''),
              (''region'', get pf data ''regionName''),
              (''city'', get pf data ''city''),
              (''zip'', get pf data ''zip''),
              (''coordinates'', obj
                 [(''lat'', get pf data ''lat''), (''lon'', get pf data ''lon'')]),
              (''timezone'', get pf data ''timezone''),
              (''isp'', get pf data ''isp''),
              (''organization'', get pf data ''org''),
              (''asn'', get pf data ''as''),
              (''fetchedAt'', str (now_iso pf))])])))"

text \<open>The callback that the bulk handler maps over its input.\<close>

definition bulk_task ::
  "platform \<Rightarrow> (string \<Rightarrow> fetch_result) \<Rightarrow> string \<Rightarrow> jsval io" where
  "bulk_task pf net ip =
     (if \<not> isValidIP ip
      then io_lift (obj [(''ip'', str ip), (''error'', str ''Invalid IP format'')])
      else
        io_catch
          (io_bind (fetchIPData pf net ip None) (\<lambda>data.
           io_lift (obj
             [(''ip'', get pf data ''query''),
              (''country'', get pf data ''country''),
              (''countryCode'', get pf data ''countryCode''),
              (''city'', get pf data ''city''),
              (''isp'', get pf data ''isp''),
              (''coordinates'', obj
                 [(''lat'', get pf data ''lat''), (''lon'', get pf data ''lon'')])])))
          (\<lambda>err. io_lift (obj [(''ip'', str ip), (''error'', str (message err))])))"

text \<open>
  \<open>Promise.all\<close> over promises that settle to \<open>ps\<close>, in the order \<open>sched\<close> of their
  positions. Each fulfilled value goes to the slot of its position; the first
  rejection rejects the whole; the result is the slots once every one is filled, and
  \<open>None\<close> (a promise that stays pending) when some promise never settles.
\<close>

fun settle ::
  "nat list \<Rightarrow> (js_error + 'a) list \<Rightarrow> 'a option list \<Rightarrow> (js_error + 'a list) option" where
  "settle [] ps slots = map_option Inr (those slots)"
| "settle (k # ks) ps slots =
     (if k < length ps
      then (case ps ! k of
              Inl e \<Rightarrow> Some (Inl e)
            | Inr v \<Rightarrow> settle ks ps (slots[k := Some v]))
      else settle ks ps slots)"

definition Promise_all ::
  "nat list \<Rightarrow> (js_error + 'a) list \<Rightarrow> (js_error + 'a list) option" where
  "Promise_all sched ps = settle sched ps (replicate (length ps) None)"

text \<open>The value the bulk handler returns, from the array \<open>results\<close>.\<close>

definition bulk_output :: "platform \<Rightarrow> jsval list \<Rightarrow> jsval" where
  "bulk_output pf results =
     JObj [(''output'', JObj
        [(''count'', JNum (Finite (of_nat (length results)))),
         (''results'', JArr results),
         (''fetchedAt'', JStr (now_iso pf))])]"

text \<open>
  The bulk handler. \<open>nets i\<close> is how the network answers the request made for the
  entry at position \<open>i\<close>, and \<open>sched\<close> is the order in which the lookups complete.
  The requests are returned with the position of the entry that made them; the
  callbacks run up to their \<open>fetch\<close> in input order.
\<close>

definition bulk_handler ::
  "platform \<Rightarrow> (nat \<Rightarrow> string \<Rightarrow> fetch_result) \<Rightarrow> nat list \<Rightarrow> string list \<Rightarrow>
   ((nat \<times> string) list \<times> (js_error + jsval)) option" where
  "bulk_handler pf nets sched ips =
     (let tasks = map (\<lambda>(i, ip). bulk_task pf (nets i) ip) (enumerate 0 ips);
          requests = concat (map (\<lambda>(i, task). map (Pair i) (fst task)) (enumerate 0 tasks))
      in map_option
           (\<lambda>settled. (requests, and_then settled (\<lambda>results. Inr (bulk_output pf results))))
           (Promise_all sched (map snd tasks)))"

text \<open>The input schema of the bulk entrypoint: an array of 1 to 10 strings.\<close>

definition bulk_input :: "string list \<Rightarrow> bool" where
  "bulk_input ips = (1 \<le> length ips \<and> length ips \<le> 10)"

text \<open>Every lookup completes, once: \<open>sched\<close> lists each position below \<open>n\<close> once.\<close>

definition completion_order :: "nat \<Rightarrow> nat list \<Rightarrow> bool" where
  "completion_order n sched = (distinct sched \<and> set sched = set [0..<n])"

definition geolocate_handler ::
  "platform \<Rightarrow> (string \<Rightarrow> fetch_result) \<Rightarrow> string \<Rightarrow> jsval io" where
  "geolocate_handler pf net ip =
     (if \<not> isValidIP ip then io_throw (Error ''Invalid IP address format'')
      else
        io_bind (fetchIPData pf net ip None) (\<lambda>data.
        io_lift (obj
          [(''output'', obj
             [(''ip'', get pf data ''query''),
              (''location'', obj
                 [(''country'', get pf data ''country''),
                  (''countryCode'', get pf data ''countryCode''),
                  (''region'', get pf data ''region''),
                  (''regionName'', get pf data ''regionName''),
                  (''city'', get pf data ''city''),
                  (''postalCode'', get pf data ''zip'')]),
              (''coordinates'', obj
                 [(''latitude'', get pf data ''lat''),
                  (''longitude'', get pf data ''lon''),
                  (''mapsUrl'',
                     and_then (get pf data ''lat'') (\<lambda>lat.
                     and_then (to_string pf lat) (\<lambda>lat_text.
                     and_then (get pf data ''lon'') (\<lambda>lon.
                     and_then (to_string pf lon) (\<lambda>lon_text.
                       str (''https://www.google.com/maps?q='' @ lat_text @ '','' @
                            lon_text))))))]),
              (''timezone'', get pf data ''timezone''),
              (''fetchedAt'', str (now_iso pf))])])))"

definition timezone_handler ::
  "platform \<Rightarrow> (string \<Rightarrow> fetch_result) \<Rightarrow> string \<Rightarrow> jsval io" where
  "timezone_handler pf net ip =
     (if \<not> isValidIP ip then io_throw (Error ''Invalid IP address format'')
      else
        io_bind (fetchIPData pf net ip (Some ''status,message,query,timezone,countryCode,city''))
          (\<lambda>data.
        io_lift
          (and_then (get pf data ''timezone'') (\<lambda>tz.
           and_then (to_locale_string pf tz) (\<lambda>localTime.
           obj
             [(''output'', obj
                [(''ip'', get pf data ''query''),
                 (''timezone'', get pf data ''timezone''),
                 (''country'', get pf data ''countryCode''),
                 (''city'', get pf data ''city''),
                 (''currentLocalTime'', str localTime),
                 (''fetchedAt'', str (now_iso pf))])])))))"

definition isp_info_handler ::
  "platform \<Rightarrow> (string \<Rightarrow> fetch_result) \<Rightarrow> string \<Rightarrow> jsval io" where
  "isp_info_handler pf net ip =
     (if \<not> isValidIP ip then io_throw (Error ''Invalid IP address format'')
      else
        io_bind
          (fetchIPData pf net ip
             (Some ''status,message,query,isp,org,as,asname,mobile,proxy,hosting''))
          (\<lambda>data.
        io_lift (obj
          [(''output'', obj
             [(''ip'', get pf data ''query''),
              (''isp'', get pf data ''isp''),
              (''organization'', get pf data ''org''),
              (''asn'', get pf data ''as''),
              (''asName'', get pf data ''asname''),
              (''flags'', obj
                 [(''mobile'',
                     and_then (get pf data ''mobile'') (\<lambda>v. Inr (js_or v (JBool False)))),
                  (''proxy'',
                     and_then (get pf data ''proxy'') (\<lambda>v. Inr (js_or v (JBool False)))),
                  (''hosting'',
                     and_then (get pf data ''hosting'') (\<lambda>v. Inr (js_or v (JBool False))))]),
              (''fetchedAt'', str (now_iso pf))])])))"

section \<open>Example inputs\<close>

text \<open>A platform, provider records and networks on which the theorems are exercised.\<close>

definition example_platform :: platform where
  "example_platform =
     \<lparr>now_iso = ''2024-05-01T12:00:00.000Z'',
      number_to_string = (\<lambda>n. ''0''),
      null_read_message = (\<lambda>k. ''Cannot read properties of null''),
      to_primitive_message = ''Cannot convert object to primitive value'',
      to_locale_string = (\<lambda>tz. Inr ''5/1/2024, 8:00:00 AM'')\<rparr>"

definition example_record :: jsval where
  "example_record =
     JObj [(''status'', JStr ''success''), (''country'', JStr ''United States''),
           (''countryCode'', JStr ''US''), (''city'', JStr ''Ashburn''),
           (''lat'', JNum (Finite 39)), (''lon'', JNum (Finite (- 77))),
           (''isp'', JStr ''Google LLC''), (''proxy'', JBool True),
           (''hosting'', JBool False), (''query'', JStr ''8.8.8.8'')]"

definition reserved_record :: jsval where
  "reserved_record =
     JObj [(''status'', JStr ''fail''), (''message'', JStr ''reserved range''),
           (''query'', JStr ''127.0.0.1'')]"

definition good_net :: "string \<Rightarrow> fetch_result" where
  "good_net url = Resolved \<lparr>status = 200, json = Inr example_record\<rparr>"

definition reserved_net :: "string \<Rightarrow> fetch_result" where
  "reserved_net url = Resolved \<lparr>status = 200, json = Inr reserved_record\<rparr>"

definition garbled_response :: http_response where
  "garbled_response =
     \<lparr>status = 200, json = Inl (Thrown ''SyntaxError'' ''Unexpected end of JSON input'')\<rparr>"

definition garbled_net :: "string \<Rightarrow> fetch_result" where
  "garbled_net url = Resolved garbled_response"

definition down_net :: "string \<Rightarrow> fetch_result" where
  "down_net url = Rejected (Thrown ''TypeError'' ''fetch failed'')"

text \<open>The entry at position 2 meets a network failure; the other requests succeed.\<close>

definition example_nets :: "nat \<Rightarrow> string \<Rightarrow> fetch_result" where
  "example_nets i = (if i = 2 then down_net else good_net)"

definition example_ips :: "string list" where
  "example_ips = [''8.8.8.8'', ''not-an-ip'', ''1.1.1.1'']"

section \<open>Properties of the upstream client and of the bulk callback\<close>

lemma get_total:
  "get pf d k = Inr v \<Longrightarrow> \<exists>w. get pf d k' = Inr w"
  by (cases d) auto

text \<open>
  Every call of \<open>fetchIPData\<close> makes exactly one request, of the URL built from the
  address and the field list, whatever the network answers.
\<close>

lemma fetchIPData_urls: "fst (fetchIPData pf net ip fl) = [request_url ip fl]"
  by (simp add: fetchIPData_def Let_def)

lemma fetchIPData_data_readable:
  assumes "fetchIPData pf net ip fl = (urls, Inr d)"
  shows "\<exists>w. get pf d k = Inr w"
  using assms
  by (auto simp: fetchIPData_def Let_def and_then_def
      split: fetch_result.splits if_splits sum.splits dest: get_total)

lemma settle_fills:
  assumes "length slots = length vs"
    and "\<forall>j<length vs. slots ! j = Some (vs ! j) \<or> j \<in> set ks"
  shows "settle ks (map Inr vs) slots = Some (Inr vs)"
  using assms
proof (induction ks arbitrary: slots)
  case Nil
  then have "slots = map Some vs"
    by (auto simp: list_eq_iff_nth_eq)
  moreover have "those (map Some vs) = Some vs"
    by (induction vs) auto
  ultimately show ?case by simp
next
  case (Cons k ks)
  show ?case
  proof (cases "k < length vs")
    case True
    have "settle ks (map Inr vs) (slots[k := Some (vs ! k)]) = Some (Inr vs)"
    proof (rule Cons.IH)
      show "length (slots[k := Some (vs ! k)]) = length vs" using Cons.prems by simp
      show "\<forall>j<length vs. slots[k := Some (vs ! k)] ! j = Some (vs ! j) \<or> j \<in> set ks"
      proof (intro allI impI)
        fix j assume j: "j < length vs"
        show "slots[k := Some (vs ! k)] ! j = Some (vs ! j) \<or> j \<in> set ks"
        proof (cases "j = k")
          case True
          with j Cons.prems(1) show ?thesis by simp
        next
          case False
          with j Cons.prems(2) show ?thesis by auto
        qed
      qed
    qed
    with True show ?thesis by simp
  next
    case False
    have "settle ks (map Inr vs) slots = Some (Inr vs)"
    proof (rule Cons.IH)
      show "length slots = length vs" using Cons.prems by simp
      show "\<forall>j<length vs. slots ! j = Some (vs ! j) \<or> j \<in> set ks"
        using Cons.prems False by auto
    qed
    with False show ?thesis by simp
  qed
qed

lemma Promise_all_fulfilled:
  assumes "completion_order (length vs) sched"
  shows "Promise_all sched (map Inr vs) = Some (Inr vs)"
  unfolding Promise_all_def
  by (rule settle_fills) (use assms in \<open>auto simp: completion_order_def\<close>)


lemma bulk_task_invalid:
  assumes "\<not> isValidIP ip"
  shows "bulk_task pf net ip =
     ([], Inr (JObj [(''ip'', JStr ip), (''error'', JStr ''Invalid IP format'')]))"
  using assms by (simp add: bulk_task_def io_lift_def obj_def and_then_def str_def)

lemma bulk_task_failed:
  assumes "isValidIP ip" and "fetchIPData pf net ip None = (urls, Inl err)"
  shows "bulk_task pf net ip =
     (urls, Inr (JObj [(''ip'', JStr ip), (''error'', JStr (message err))]))"
  using assms
  by (simp add: bulk_task_def io_catch_def io_bind_def io_lift_def obj_def and_then_def str_def)

lemma bulk_task_success:
  assumes "isValidIP ip" and f: "fetchIPData pf net ip None = (urls, Inr d)"
  shows "\<exists>q c cc ci isp lat lon.
     get pf d ''query'' = Inr q \<and> get pf d ''country'' = Inr c \<and>
     get pf d ''countryCode'' = Inr cc \<and> get pf d ''city'' = Inr ci \<and>
     get pf d ''isp'' = Inr isp \<and> get pf d ''lat'' = Inr lat \<and> get pf d ''lon'' = Inr lon \<and>
     bulk_task pf net ip =
       (urls, Inr (JObj [(''ip'', q), (''country'', c), (''countryCode'', cc), (''city'', ci),
                         (''isp'', isp), (''coordinates'', JObj [(''lat'', lat), (''lon'', lon)])]))"
proof -
  note r = fetchIPData_data_readable[OF f]
  obtain q where q: "get pf d ''query'' = Inr q" using r by blast
  obtain c where c: "get pf d ''country'' = Inr c" using r by blast
  obtain cc where cc: "get pf d ''countryCode'' = Inr cc" using r by blast
  obtain ci where ci: "get pf d ''city'' = Inr ci" using r by blast
  obtain isp where isp: "get pf d ''isp'' = Inr isp" using r by blast
  obtain lat where lat: "get pf d ''lat'' = Inr lat" using r by blast
  obtain lon where lon: "get pf d ''lon'' = Inr lon" using r by blast
  have "bulk_task pf net ip =
       (urls, Inr (JObj [(''ip'', q), (''country'', c), (''countryCode'', cc), (''city'', ci),
                         (''isp'', isp), (''coordinates'', JObj [(''lat'', lat), (''lon'', lon)])]))"
    using assms
    by (simp add: bulk_task_def io_catch_def io_bind_def io_lift_def obj_def and_then_def
        q c cc ci isp lat lon)
  with q c cc ci isp lat lon show ?thesis by blast
qed

lemma bulk_task_fulfils: "\<exists>v. snd (bulk_task pf net ip) = Inr v"
proof (cases "isValidIP ip")
  case False
  then show ?thesis by (simp add: bulk_task_invalid)
next
  case True
  obtain urls r where f: "fetchIPData pf net ip None = (urls, r)"
    by (cases "fetchIPData pf net ip None")
  show ?thesis
  proof (cases r)
    case (Inl e)
    with True f show ?thesis by (simp add: bulk_task_failed)
  next
    case (Inr d)
    with True f bulk_task_success[of ip pf net urls d] show ?thesis by auto
  qed
qed

lemma bulk_handler_completes:
  assumes "completion_order (length ips) sched"
  shows "\<exists>requests rs.
     bulk_handler pf nets sched ips = Some (requests, Inr (bulk_output pf rs)) \<and>
     length rs = length ips \<and>
     (\<forall>i<length ips. snd (bulk_task pf (nets i) (ips ! i)) = Inr (rs ! i)) \<and>
     (\<forall>i url. (i, url) \<in> set requests \<longleftrightarrow>
        i < length ips \<and> url \<in> set (fst (bulk_task pf (nets i) (ips ! i))))"
proof -
  define tasks where "tasks = map (\<lambda>(i, ip). bulk_task pf (nets i) ip) (enumerate 0 ips)"
  define requests where
    "requests = concat (map (\<lambda>(i, task). map (Pair i) (fst task)) (enumerate 0 tasks))"
  define rs where "rs = map (\<lambda>t. projr (snd t)) tasks"
  have len: "length tasks = length ips" by (simp add: tasks_def)
  have nth: "tasks ! i = bulk_task pf (nets i) (ips ! i)" if "i < length ips" for i
    using that by (simp add: tasks_def nth_enumerate_eq)
  have snd_eq: "map snd tasks = map Inr rs"
  proof (rule nth_equalityI)
    show "length (map snd tasks) = length (map Inr rs)" by (simp add: rs_def)
    fix i assume "i < length (map snd tasks)"
    then have i: "i < length ips" by (simp add: len)
    obtain v where "snd (bulk_task pf (nets i) (ips ! i)) = Inr v"
      using bulk_task_fulfils by blast
    with i show "map snd tasks ! i = map Inr rs ! i"
      by (simp add: rs_def len nth)
  qed
  have lrs: "length rs = length ips" by (simp add: rs_def len)
  have "Promise_all sched (map snd tasks) = Some (Inr rs)"
    unfolding snd_eq by (rule Promise_all_fulfilled) (simp add: lrs assms)
  then have run: "bulk_handler pf nets sched ips = Some (requests, Inr (bulk_output pf rs))"
    by (simp add: bulk_handler_def Let_def tasks_def[symmetric] requests_def[symmetric]
        and_then_def)
  have out: "snd (bulk_task pf (nets i) (ips ! i)) = Inr (rs ! i)" if "i < length ips" for i
  proof -
    have "map snd tasks ! i = map Inr rs ! i" by (simp add: snd_eq)
    with that show ?thesis by (simp add: len lrs nth)
  qed
  have req: "(i, url) \<in> set requests \<longleftrightarrow>
      i < length ips \<and> url \<in> set (fst (bulk_task pf (nets i) (ips ! i)))" for i url
  proof -
    have "(i, url) \<in> set requests \<longleftrightarrow>
        (\<exists>p\<in>set (enumerate 0 tasks). fst p = i \<and> url \<in> set (fst (snd p)))"
      unfolding requests_def case_prod_beta by force
    also have "\<dots> \<longleftrightarrow> i < length tasks \<and> url \<in> set (fst (tasks ! i))"
    proof
      assume "\<exists>p\<in>set (enumerate 0 tasks). fst p = i \<and> url \<in> set (fst (snd p))"
      then show "i < length tasks \<and> url \<in> set (fst (tasks ! i))"
        by (auto simp: in_set_enumerate_eq)
    next
      assume a: "i < length tasks \<and> url \<in> set (fst (tasks ! i))"
      then have "(i, tasks ! i) \<in> set (enumerate 0 tasks)"
        by (simp add: in_set_enumerate_eq)
      with a show "\<exists>p\<in>set (enumerate 0 tasks). fst p = i \<and> url \<in> set (fst (snd p))"
        by force
    qed
    finally show ?thesis by (auto simp: len nth)
  qed
  from run lrs out req show ?thesis by blast
qed

section \<open>The validator on concrete addresses\<close>

lemma valid_8888: "isValidIP ''8.8.8.8''"
  by code_simp

lemma valid_1111: "isValidIP ''1.1.1.1''"
  by code_simp

lemma invalid_word: "\<not> isValidIP ''not-an-ip''"
  by code_simp

lemma invalid_octet: "\<not> isValidIP ''256.1.1.1''"
  by code_simp

text \<open>
  C1. The validator is meant to accept every well-formed IPv6 address, the
  zero-compressed forms included, and nothing else. The fourth alternative of
  \<open>ipv6Regex\<close> asks for three colons where a compressed address has two: the validator
  rejects \<open>1::2\<close> and \<open>fe80::1\<close>, and accepts \<open>1:::2\<close>, which is no address. No
  alternative matches \<open>::\<close> alone. The forms with the \<open>::\<close> at an end (\<open>::1\<close>,
  \<open>1::\<close>) are accepted.
\<close>

theorem isValidIP_zero_compression:
  "\<not> isValidIP ''1::2'' \<and> \<not> isValidIP ''::'' \<and> \<not> isValidIP ''fe80::1'' \<and>
   isValidIP ''1:::2'' \<and> isValidIP ''::1'' \<and> isValidIP ''1::''"
  by code_simp

section \<open>The bulk handler\<close>

lemma example_order: "completion_order (length example_ips) [2, 0, 1]"
  by (auto simp: completion_order_def example_ips_def)

text \<open>
  C2. For an input of 1 to 10 addresses, whatever the order in which the lookups
  complete, the bulk handler returns, and its results have the length of the input;
  the result at each position is the outcome of the callback on the address at that
  position, with the network's answer to that entry.
\<close>

theorem bulk_results_in_input_order:
  assumes "bulk_input ips" and "completion_order (length ips) sched"
  shows "\<exists>requests rs.
     bulk_handler pf nets sched ips = Some (requests, Inr (bulk_output pf rs)) \<and>
     length rs = length ips \<and>
     (\<forall>i<length ips. snd (bulk_task pf (nets i) (ips ! i)) = Inr (rs ! i))"
  using bulk_handler_completes[OF assms(2), of pf nets] by blast

theorem bulk_results_in_input_order_witness:
  "bulk_input example_ips \<and> completion_order (length example_ips) [2, 0, 1] \<and>
   (\<exists>requests rs.
      bulk_handler example_platform example_nets [2, 0, 1] example_ips =
        Some (requests, Inr (bulk_output example_platform rs)) \<and>
      length rs = 3 \<and>
      rs ! 1 = JObj [(''ip'', JStr ''not-an-ip''), (''error'', JStr ''Invalid IP format'')])"
proof -
  have h: "bulk_input example_ips" by (simp add: bulk_input_def example_ips_def)
  from bulk_results_in_input_order[OF h example_order, of example_platform example_nets]
  obtain requests rs where
    run: "bulk_handler example_platform example_nets [2, 0, 1] example_ips =
        Some (requests, Inr (bulk_output example_platform rs))"
    and len: "length rs = length example_ips"
    and nth: "\<forall>i<length example_ips.
        snd (bulk_task example_platform (example_nets i) (example_ips ! i)) = Inr (rs ! i)"
    by blast
  have "1 < length example_ips" by (simp add: example_ips_def)
  with nth have "snd (bulk_task example_platform (example_nets 1) (example_ips ! 1)) = Inr (rs ! 1)"
    by blast
  then have "rs ! 1 = JObj [(''ip'', JStr ''not-an-ip''), (''error'', JStr ''Invalid IP format'')]"
    by (simp add: example_ips_def bulk_task_invalid[OF invalid_word])
  with run len h example_order show ?thesis by (auto simp: example_ips_def)
qed

text \<open>
  C3. When the address at position \<open>i\<close> of a bulk input fails the validator, the
  result at position \<open>i\<close> is exactly \<open>{ip: <that address>, error: "Invalid IP format"}\<close>
  and the handler makes no request for that entry.
\<close>

theorem bulk_invalid_entry:
  assumes "completion_order (length ips) sched" and "i < length ips"
    and "\<not> isValidIP (ips ! i)"
  shows "\<exists>requests rs.
     bulk_handler pf nets sched ips = Some (requests, Inr (bulk_output pf rs)) \<and>
     rs ! i = JObj [(''ip'', JStr (ips ! i)), (''error'', JStr ''Invalid IP format'')] \<and>
     (\<forall>url. (i, url) \<notin> set requests)"
proof -
  from bulk_handler_completes[OF assms(1), of pf nets]
  obtain requests rs where
    run: "bulk_handler pf nets sched ips = Some (requests, Inr (bulk_output pf rs))"
    and nth: "\<forall>j<length ips. snd (bulk_task pf (nets j) (ips ! j)) = Inr (rs ! j)"
    and req: "\<forall>j url. (j, url) \<in> set requests \<longleftrightarrow>
        j < length ips \<and> url \<in> set (fst (bulk_task pf (nets j) (ips ! j)))"
    by blast
  have task: "bulk_task pf (nets i) (ips ! i) =
      ([], Inr (JObj [(''ip'', JStr (ips ! i)), (''error'', JStr ''Invalid IP format'')]))"
    by (rule bulk_task_invalid[OF assms(3)])
  from nth assms(2) have "snd (bulk_task pf (nets i) (ips ! i)) = Inr (rs ! i)" by blast
  with task have out: "rs ! i = JObj [(''ip'', JStr (ips ! i)), (''error'', JStr ''Invalid IP format'')]"
    by simp
  from req task have "\<forall>url. (i, url) \<notin> set requests" by simp
  with run out show ?thesis by blast
qed

lemma example_nth1: "example_ips ! 1 = ''not-an-ip''" and example_nth1': "example_ips ! Suc 0 = ''not-an-ip''" and example_len: "length example_ips = 3"
  and example_nth0: "example_ips ! 0 = ''8.8.8.8''" and example_nth2: "example_ips ! 2 = ''1.1.1.1''"
  by (simp_all add: example_ips_def)

theorem bulk_invalid_entry_witness:
  "completion_order (length example_ips) [2, 0, 1] \<and> 1 < length example_ips \<and>
   \<not> isValidIP (example_ips ! 1) \<and>
   (\<exists>requests rs.
      bulk_handler example_platform example_nets [2, 0, 1] example_ips =
        Some (requests, Inr (bulk_output example_platform rs)) \<and>
      rs ! 1 = JObj [(''ip'', JStr ''not-an-ip''), (''error'', JStr ''Invalid IP format'')] \<and>
      (\<forall>url. (1, url) \<notin> set requests))"
proof -
  have h2: "1 < length example_ips" by (simp add: example_len)
  have h3: "\<not> isValidIP (example_ips ! 1)" unfolding example_nth1 by (rule invalid_word)
  from bulk_invalid_entry[OF example_order h2 h3, of example_platform example_nets]
  show ?thesis using example_order h2 h3 by (simp add: example_nth1')
qed

text \<open>
  C4. When the upstream call of one entry throws, the bulk handler still returns a
  result for every entry: the failing entry's result is \<open>{ip, error: <the message thrown>}\<close>,
  and the result of every other entry is what it is under any other answer of the
  network to the failing entry and any other completion order.
\<close>

theorem bulk_failure_is_isolated:
  assumes "completion_order (length ips) sched" and "completion_order (length ips) sched'"
    and "i < length ips" and "isValidIP (ips ! i)"
    and "fetchIPData pf (nets i) (ips ! i) None = (urls, Inl err)"
    and "\<forall>j. j \<noteq> i \<longrightarrow> nets' j = nets j"
  shows "\<exists>requests rs requests' rs'.
     bulk_handler pf nets sched ips = Some (requests, Inr (bulk_output pf rs)) \<and>
     bulk_handler pf nets' sched' ips = Some (requests', Inr (bulk_output pf rs')) \<and>
     length rs = length ips \<and> length rs' = length ips \<and>
     rs ! i = JObj [(''ip'', JStr (ips ! i)), (''error'', JStr (message err))] \<and>
     (\<forall>j<length ips. j \<noteq> i \<longrightarrow> rs ! j = rs' ! j)"
proof -
  from bulk_handler_completes[OF assms(1), of pf nets]
  obtain requests rs where
    run: "bulk_handler pf nets sched ips = Some (requests, Inr (bulk_output pf rs))"
    and len: "length rs = length ips"
    and nth: "\<forall>j<length ips. snd (bulk_task pf (nets j) (ips ! j)) = Inr (rs ! j)"
    by blast
  from bulk_handler_completes[OF assms(2), of pf nets']
  obtain requests' rs' where
    run': "bulk_handler pf nets' sched' ips = Some (requests', Inr (bulk_output pf rs'))"
    and len': "length rs' = length ips"
    and nth': "\<forall>j<length ips. snd (bulk_task pf (nets' j) (ips ! j)) = Inr (rs' ! j)"
    by blast
  from nth assms(3) have "snd (bulk_task pf (nets i) (ips ! i)) = Inr (rs ! i)" by blast
  then have out: "rs ! i = JObj [(''ip'', JStr (ips ! i)), (''error'', JStr (message err))]"
    by (simp add: bulk_task_failed[OF assms(4,5)])
  have same: "\<forall>j<length ips. j \<noteq> i \<longrightarrow> rs ! j = rs' ! j"
  proof (intro allI impI)
    fix j assume j: "j < length ips" "j \<noteq> i"
    with assms(6) have "nets' j = nets j" by blast
    with nth nth' j(1) have "Inr (rs ! j) = (Inr (rs' ! j) :: js_error + jsval)" by metis
    then show "rs ! j = rs' ! j" by simp
  qed
  from run run' len len' out same show ?thesis by blast
qed

lemma down_fetch:
  "fetchIPData pf down_net ip fl = ([request_url ip fl], Inl (Thrown ''TypeError'' ''fetch failed''))"
  by (simp add: fetchIPData_def down_net_def)

lemma good_fetch:
  "fetchIPData pf good_net ip fl = ([request_url ip fl], Inr example_record)"
  by (simp add: fetchIPData_def good_net_def ok_def and_then_def example_record_def)

theorem bulk_failure_is_isolated_witness:
  "completion_order (length example_ips) [2, 0, 1] \<and>
   completion_order (length example_ips) [0, 1, 2] \<and>
   2 < length example_ips \<and> isValidIP (example_ips ! 2) \<and>
   fetchIPData example_platform (example_nets 2) (example_ips ! 2) None =
     ([request_url ''1.1.1.1'' None], Inl (Thrown ''TypeError'' ''fetch failed'')) \<and>
   (\<exists>requests rs requests' rs'.
      bulk_handler example_platform example_nets [2, 0, 1] example_ips =
        Some (requests, Inr (bulk_output example_platform rs)) \<and>
      bulk_handler example_platform (\<lambda>j. good_net) [0, 1, 2] example_ips =
        Some (requests', Inr (bulk_output example_platform rs')) \<and>
      length rs = 3 \<and> length rs' = 3 \<and>
      rs ! 2 = JObj [(''ip'', JStr ''1.1.1.1''), (''error'', JStr ''fetch failed'')] \<and>
      rs ! 0 = rs' ! 0 \<and> rs ! 1 = rs' ! 1)"
proof -
  have h2: "completion_order (length example_ips) [0, 1, 2]"
    by (auto simp: completion_order_def example_ips_def)
  have h3: "2 < length example_ips" by (simp add: example_len)
  have h4: "isValidIP (example_ips ! 2)" by (simp add: example_nth2 valid_1111)
  have h5: "fetchIPData example_platform (example_nets 2) (example_ips ! 2) None =
     ([request_url ''1.1.1.1'' None], Inl (Thrown ''TypeError'' ''fetch failed''))"
    by (simp add: example_nets_def example_nth2 down_fetch)
  have h6: "\<forall>j. j \<noteq> 2 \<longrightarrow> (\<lambda>j. good_net) j = example_nets j"
    by (simp add: example_nets_def)
  from bulk_failure_is_isolated[OF example_order h2 h3 h4 h5 h6]
  obtain requests rs requests' rs' where r:
    "bulk_handler example_platform example_nets [2, 0, 1] example_ips =
        Some (requests, Inr (bulk_output example_platform rs))"
    "bulk_handler example_platform (\<lambda>j. good_net) [0, 1, 2] example_ips =
        Some (requests', Inr (bulk_output example_platform rs'))"
    "length rs = length example_ips" "length rs' = length example_ips"
    "rs ! 2 = JObj [(''ip'', JStr (example_ips ! 2)),
                    (''error'', JStr (message (Thrown ''TypeError'' ''fetch failed'')))]"
    "\<forall>j<length example_ips. j \<noteq> 2 \<longrightarrow> rs ! j = rs' ! j"
    by blast
  from r(6) have "rs ! 0 = rs' ! 0" "rs ! 1 = rs' ! 1" by (simp_all add: example_len)
  with r(1-5) example_order h2 h3 h4 h5 show ?thesis
    by (simp add: example_len example_nth2) blast
qed

text \<open>
  C7. When the upstream lookup of a bulk entry succeeds with the record \<open>data\<close>, the
  entry's result has exactly the properties \<open>ip\<close>, \<open>country\<close>, \<open>countryCode\<close>, \<open>city\<close>,
  \<open>isp\<close> and \<open>coordinates {lat, lon}\<close>; \<open>ip\<close> is the record's \<open>query\<close> and not the
  caller's string, and each other property is the record's property of that name.
\<close>

theorem bulk_success_payload:
  assumes "completion_order (length ips) sched" and "i < length ips"
    and "isValidIP (ips ! i)"
    and "fetchIPData pf (nets i) (ips ! i) None = (urls, Inr data)"
  shows "\<exists>requests rs q c cc ci isp lat lon.
     bulk_handler pf nets sched ips = Some (requests, Inr (bulk_output pf rs)) \<and>
     get pf data ''query'' = Inr q \<and> get pf data ''country'' = Inr c \<and>
     get pf data ''countryCode'' = Inr cc \<and> get pf data ''city'' = Inr ci \<and>
     get pf data ''isp'' = Inr isp \<and> get pf data ''lat'' = Inr lat \<and>
     get pf data ''lon'' = Inr lon \<and>
     rs ! i = JObj [(''ip'', q), (''country'', c), (''countryCode'', cc), (''city'', ci),
                    (''isp'', isp), (''coordinates'', JObj [(''lat'', lat), (''lon'', lon)])]"
proof -
  from bulk_handler_completes[OF assms(1), of pf nets]
  obtain requests rs where
    run: "bulk_handler pf nets sched ips = Some (requests, Inr (bulk_output pf rs))"
    and nth: "\<forall>j<length ips. snd (bulk_task pf (nets j) (ips ! j)) = Inr (rs ! j)"
    by blast
  from bulk_task_success[OF assms(3,4)]
  obtain q c cc ci isp lat lon where g:
    "get pf data ''query'' = Inr q" "get pf data ''country'' = Inr c"
    "get pf data ''countryCode'' = Inr cc" "get pf data ''city'' = Inr ci"
    "get pf data ''isp'' = Inr isp" "get pf data ''lat'' = Inr lat"
    "get pf data ''lon'' = Inr lon"
    and task: "bulk_task pf (nets i) (ips ! i) =
       (urls, Inr (JObj [(''ip'', q), (''country'', c), (''countryCode'', cc), (''city'', ci),
                         (''isp'', isp), (''coordinates'', JObj [(''lat'', lat), (''lon'', lon)])]))"
    by blast
  from nth assms(2) have "snd (bulk_task pf (nets i) (ips ! i)) = Inr (rs ! i)" by blast
  with task have
    "rs ! i = JObj [(''ip'', q), (''country'', c), (''countryCode'', cc), (''city'', ci),
                    (''isp'', isp), (''coordinates'', JObj [(''lat'', lat), (''lon'', lon)])]"
    by simp
  with run g show ?thesis by blast
qed

lemma example_record_fields:
  "get pf example_record ''query'' = Inr (JStr ''8.8.8.8'')"
  "get pf example_record ''country'' = Inr (JStr ''United States'')"
  "get pf example_record ''countryCode'' = Inr (JStr ''US'')"
  "get pf example_record ''city'' = Inr (JStr ''Ashburn'')"
  "get pf example_record ''isp'' = Inr (JStr ''Google LLC'')"
  "get pf example_record ''lat'' = Inr (JNum (Finite 39))"
  "get pf example_record ''lon'' = Inr (JNum (Finite (- 77)))"
  "get pf example_record ''mobile'' = Inr JUndefined"
  "get pf example_record ''proxy'' = Inr (JBool True)"
  "get pf example_record ''hosting'' = Inr (JBool False)"
  by (simp_all add: example_record_def)

theorem bulk_success_payload_witness:
  "completion_order (length example_ips) [2, 0, 1] \<and> 2 < length example_ips \<and>
   isValidIP (example_ips ! 2) \<and>
   fetchIPData example_platform good_net (example_ips ! 2) None =
     ([request_url ''1.1.1.1'' None], Inr example_record) \<and>
   (\<exists>requests rs.
      bulk_handler example_platform (\<lambda>j. good_net) [2, 0, 1] example_ips =
        Some (requests, Inr (bulk_output example_platform rs)) \<and>
      rs ! 2 = JObj [(''ip'', JStr ''8.8.8.8''), (''country'', JStr ''United States''),
                     (''countryCode'', JStr ''US''), (''city'', JStr ''Ashburn''),
                     (''isp'', JStr ''Google LLC''),
                     (''coordinates'', JObj [(''lat'', JNum (Finite 39)),
                                             (''lon'', JNum (Finite (- 77)))])])"
proof -
  have h2: "2 < length example_ips" by (simp add: example_len)
  have h3: "isValidIP (example_ips ! 2)" by (simp add: example_nth2 valid_1111)
  have h4: "fetchIPData example_platform good_net (example_ips ! 2) None =
     ([request_url ''1.1.1.1'' None], Inr example_record)"
    by (simp add: example_nth2 good_fetch)
  from bulk_success_payload[of example_ips "[2, 0, 1]" 2 example_platform "\<lambda>j. good_net",
      OF example_order h2 h3 h4]
  show ?thesis using example_order h2 h3 h4 by (simp add: example_record_fields)
qed

text \<open>
  C10. Every result of the bulk handler is an object. One that has an \<open>error\<close>
  property carries as \<open>ip\<close> the input string at its position, as the caller gave it;
  one that has none comes from a successful lookup of a valid address and carries as
  \<open>ip\<close> the \<open>query\<close> of the provider's record.
\<close>

theorem bulk_error_keeps_input_ip:
  assumes "completion_order (length ips) sched" and "i < length ips"
  shows "\<exists>requests rs kvs.
     bulk_handler pf nets sched ips = Some (requests, Inr (bulk_output pf rs)) \<and>
     rs ! i = JObj kvs \<and>
     (if map_of kvs ''error'' = None
      then \<exists>urls data q. isValidIP (ips ! i) \<and>
             fetchIPData pf (nets i) (ips ! i) None = (urls, Inr data) \<and>
             get pf data ''query'' = Inr q \<and> map_of kvs ''ip'' = Some q
      else map_of kvs ''ip'' = Some (JStr (ips ! i)))"
proof -
  from bulk_handler_completes[OF assms(1), of pf nets]
  obtain requests rs where
    run: "bulk_handler pf nets sched ips = Some (requests, Inr (bulk_output pf rs))"
    and nth: "\<forall>j<length ips. snd (bulk_task pf (nets j) (ips ! j)) = Inr (rs ! j)"
    by blast
  from nth assms(2) have out: "snd (bulk_task pf (nets i) (ips ! i)) = Inr (rs ! i)" by blast
  let ?P = "\<lambda>kvs. if map_of kvs ''error'' = None
      then \<exists>urls data q. isValidIP (ips ! i) \<and>
             fetchIPData pf (nets i) (ips ! i) None = (urls, Inr data) \<and>
             get pf data ''query'' = Inr q \<and> map_of kvs ''ip'' = Some q
      else map_of kvs ''ip'' = Some (JStr (ips ! i))"
  have "\<exists>kvs. rs ! i = JObj kvs \<and> ?P kvs"
  proof (cases "isValidIP (ips ! i)")
    case False
    from out bulk_task_invalid[OF False, of pf "nets i"]
    have "rs ! i = JObj [(''ip'', JStr (ips ! i)), (''error'', JStr ''Invalid IP format'')]"
      by simp
    then show ?thesis by simp
  next
    case True
    obtain urls r where f: "fetchIPData pf (nets i) (ips ! i) None = (urls, r)"
      by (cases "fetchIPData pf (nets i) (ips ! i) None")
    show ?thesis
    proof (cases r)
      case (Inl err)
      from out bulk_task_failed[OF True f[unfolded Inl]]
      have "rs ! i = JObj [(''ip'', JStr (ips ! i)), (''error'', JStr (message err))]"
        by simp
      then show ?thesis by simp
    next
      case (Inr data)
      from bulk_task_success[OF True f[unfolded Inr]]
      obtain q c cc ci isp lat lon where q: "get pf data ''query'' = Inr q"
        and task: "bulk_task pf (nets i) (ips ! i) =
          (urls, Inr (JObj [(''ip'', q), (''country'', c), (''countryCode'', cc), (''city'', ci),
                            (''isp'', isp), (''coordinates'', JObj [(''lat'', lat), (''lon'', lon)])]))"
        by blast
      from out task have
        "rs ! i = JObj [(''ip'', q), (''country'', c), (''countryCode'', cc), (''city'', ci),
                        (''isp'', isp), (''coordinates'', JObj [(''lat'', lat), (''lon'', lon)])]"
        by simp
      moreover have "?P [(''ip'', q), (''country'', c), (''countryCode'', cc), (''city'', ci),
                        (''isp'', isp), (''coordinates'', JObj [(''lat'', lat), (''lon'', lon)])]"
        using True f Inr q by simp
      ultimately show ?thesis by blast
    qed
  qed
  with run show ?thesis by blast
qed

theorem bulk_error_keeps_input_ip_witness:
  "completion_order (length example_ips) [2, 0, 1] \<and> 2 < length example_ips \<and>
   (\<exists>requests rs kvs.
      bulk_handler example_platform example_nets [2, 0, 1] example_ips =
        Some (requests, Inr (bulk_output example_platform rs)) \<and>
      rs ! 2 = JObj kvs \<and> map_of kvs ''ip'' = Some (JStr ''1.1.1.1''))"
proof -
  have h2: "2 < length example_ips" by (simp add: example_len)
  from bulk_error_keeps_input_ip[OF example_order h2, of example_platform example_nets]
  obtain requests rs kvs where
    run: "bulk_handler example_platform example_nets [2, 0, 1] example_ips =
        Some (requests, Inr (bulk_output example_platform rs))"
    and out: "rs ! 2 = JObj kvs"
    and cls: "if map_of kvs ''error'' = None
      then \<exists>urls data q. isValidIP (example_ips ! 2) \<and>
             fetchIPData example_platform (example_nets 2) (example_ips ! 2) None = (urls, Inr data) \<and>
             get example_platform data ''query'' = Inr q \<and> map_of kvs ''ip'' = Some q
      else map_of kvs ''ip'' = Some (JStr (example_ips ! 2))"
    by blast
  have "map_of kvs ''ip'' = Some (JStr ''1.1.1.1'')"
  proof (cases "map_of kvs ''error'' = None")
    case True
    with cls show ?thesis by (simp add: example_nets_def down_fetch)
  next
    case False
    with cls show ?thesis by (simp add: example_nth2)
  qed
  with run out example_order h2 show ?thesis by blast
qed

text \<open>
  C6. On an address that fails the validator, each single-address handler (lookup,
  geolocate, timezone, isp-info) throws the error \<open>Invalid IP address format\<close>: it
  returns no output, and it has made no request.
\<close>

theorem single_ip_handlers_validate_first:
  assumes "\<not> isValidIP ip"
  shows "lookup_handler pf net ip = ([], Inl (Error ''Invalid IP address format'')) \<and>
         geolocate_handler pf net ip = ([], Inl (Error ''Invalid IP address format'')) \<and>
         timezone_handler pf net ip = ([], Inl (Error ''Invalid IP address format'')) \<and>
         isp_info_handler pf net ip = ([], Inl (Error ''Invalid IP address format''))"
  using assms
  by (simp add: lookup_handler_def geolocate_handler_def timezone_handler_def
      isp_info_handler_def io_throw_def)

theorem single_ip_handlers_validate_first_witness:
  "\<not> isValidIP ''256.1.1.1'' \<and>
   lookup_handler example_platform good_net ''256.1.1.1'' =
     ([], Inl (Thrown ''Error'' ''Invalid IP address format'')) \<and>
   geolocate_handler example_platform good_net ''256.1.1.1'' =
     ([], Inl (Thrown ''Error'' ''Invalid IP address format'')) \<and>
   timezone_handler example_platform good_net ''256.1.1.1'' =
     ([], Inl (Thrown ''Error'' ''Invalid IP address format'')) \<and>
   isp_info_handler example_platform good_net ''256.1.1.1'' =
     ([], Inl (Thrown ''Error'' ''Invalid IP address format''))"
  using single_ip_handlers_validate_first[OF invalid_octet, of example_platform good_net]
    invalid_octet
  by (simp add: Error_def)

text \<open>
  C8. When the lookup of the isp-info handler succeeds with the record \<open>data\<close>, each of
  the flags \<open>mobile\<close>, \<open>proxy\<close> and \<open>hosting\<close> of the output is the record's boolean of
  that name when the record has one, and \<open>false\<close> when the record has no such property.
\<close>

theorem isp_info_flags:
  assumes "isValidIP ip"
    and f: "fetchIPData pf net ip
             (Some ''status,message,query,isp,org,as,asname,mobile,proxy,hosting'') =
           (urls, Inr data)"
  shows "\<exists>q isp org asn asname m p h.
     isp_info_handler pf net ip =
       (urls, Inr (JObj [(''output'', JObj
          [(''ip'', q), (''isp'', isp), (''organization'', org), (''asn'', asn),
           (''asName'', asname),
           (''flags'', JObj [(''mobile'', m), (''proxy'', p), (''hosting'', h)]),
           (''fetchedAt'', JStr (now_iso pf))])])) \<and>
     (\<forall>b. get pf data ''mobile'' = Inr (JBool b) \<longrightarrow> m = JBool b) \<and>
     (get pf data ''mobile'' = Inr JUndefined \<longrightarrow> m = JBool False) \<and>
     (\<forall>b. get pf data ''proxy'' = Inr (JBool b) \<longrightarrow> p = JBool b) \<and>
     (get pf data ''proxy'' = Inr JUndefined \<longrightarrow> p = JBool False) \<and>
     (\<forall>b. get pf data ''hosting'' = Inr (JBool b) \<longrightarrow> h = JBool b) \<and>
     (get pf data ''hosting'' = Inr JUndefined \<longrightarrow> h = JBool False)"
proof -
  note r = fetchIPData_data_readable[OF f]
  obtain q where q: "get pf data ''query'' = Inr q" using r by blast
  obtain isp where isp: "get pf data ''isp'' = Inr isp" using r by blast
  obtain org where org: "get pf data ''org'' = Inr org" using r by blast
  obtain asn where asn: "get pf data ''as'' = Inr asn" using r by blast
  obtain asname where asname: "get pf data ''asname'' = Inr asname" using r by blast
  obtain m where m: "get pf data ''mobile'' = Inr m" using r by blast
  obtain p where p: "get pf data ''proxy'' = Inr p" using r by blast
  obtain h where h: "get pf data ''hosting'' = Inr h" using r by blast
  have run: "isp_info_handler pf net ip =
       (urls, Inr (JObj [(''output'', JObj
          [(''ip'', q), (''isp'', isp), (''organization'', org), (''asn'', asn),
           (''asName'', asname),
           (''flags'', JObj [(''mobile'', js_or m (JBool False)),
                             (''proxy'', js_or p (JBool False)),
                             (''hosting'', js_or h (JBool False))]),
           (''fetchedAt'', JStr (now_iso pf))])]))"
    using assms
    by (simp add: isp_info_handler_def io_bind_def io_lift_def obj_def and_then_def str_def
        q isp org asn asname m p h)
  have fm: "\<forall>b. get pf data ''mobile'' = Inr (JBool b) \<longrightarrow> js_or m (JBool False) = JBool b"
    "get pf data ''mobile'' = Inr JUndefined \<longrightarrow> js_or m (JBool False) = JBool False"
    unfolding m by (auto simp: js_or_def)
  have fp: "\<forall>b. get pf data ''proxy'' = Inr (JBool b) \<longrightarrow> js_or p (JBool False) = JBool b"
    "get pf data ''proxy'' = Inr JUndefined \<longrightarrow> js_or p (JBool False) = JBool False"
    unfolding p by (auto simp: js_or_def)
  have fh: "\<forall>b. get pf data ''hosting'' = Inr (JBool b) \<longrightarrow> js_or h (JBool False) = JBool b"
    "get pf data ''hosting'' = Inr JUndefined \<longrightarrow> js_or h (JBool False) = JBool False"
    unfolding h by (auto simp: js_or_def)
  show ?thesis
    apply (intro exI conjI)
          apply (rule run)
         apply (rule fm(1))
        apply (rule fm(2))
       apply (rule fp(1))
      apply (rule fp(2))
     apply (rule fh(1))
    apply (rule fh(2))
    done
qed


theorem isp_info_flags_witness:
  "isValidIP ''8.8.8.8'' \<and>
   fetchIPData example_platform good_net ''8.8.8.8''
      (Some ''status,message,query,isp,org,as,asname,mobile,proxy,hosting'') =
     ([request_url ''8.8.8.8'' (Some ''status,message,query,isp,org,as,asname,mobile,proxy,hosting'')],
      Inr example_record) \<and>
   (\<exists>q isp org asn asname.
     isp_info_handler example_platform good_net ''8.8.8.8'' =
       ([request_url ''8.8.8.8'' (Some ''status,message,query,isp,org,as,asname,mobile,proxy,hosting'')],
        Inr (JObj [(''output'', JObj
          [(''ip'', q), (''isp'', isp), (''organization'', org), (''asn'', asn),
           (''asName'', asname),
           (''flags'', JObj [(''mobile'', JBool False), (''proxy'', JBool True),
                             (''hosting'', JBool False)]),
           (''fetchedAt'', JStr (now_iso example_platform))])])))"
proof -
  let ?fl = "Some ''status,message,query,isp,org,as,asname,mobile,proxy,hosting''"
  have h2: "fetchIPData example_platform good_net ''8.8.8.8'' ?fl =
     ([request_url ''8.8.8.8'' ?fl], Inr example_record)"
    by (rule good_fetch)
  from isp_info_flags[OF valid_8888 h2]
  obtain q isp org asn asname m p h where
    run: "isp_info_handler example_platform good_net ''8.8.8.8'' =
       ([request_url ''8.8.8.8'' ?fl], Inr (JObj [(''output'', JObj
          [(''ip'', q), (''isp'', isp), (''organization'', org), (''asn'', asn),
           (''asName'', asname),
           (''flags'', JObj [(''mobile'', m), (''proxy'', p), (''hosting'', h)]),
           (''fetchedAt'', JStr (now_iso example_platform))])]))"
    and fm: "get example_platform example_record ''mobile'' = Inr JUndefined \<longrightarrow> m = JBool False"
    and fp: "\<forall>b. get example_platform example_record ''proxy'' = Inr (JBool b) \<longrightarrow> p = JBool b"
    and fh: "\<forall>b. get example_platform example_record ''hosting'' = Inr (JBool b) \<longrightarrow> h = JBool b"
    by blast
  from fm have "m = JBool False" by (simp add: example_record_fields)
  moreover from fp have "p = JBool True" by (auto simp: example_record_fields)
  moreover from fh have "h = JBool False" by (auto simp: example_record_fields)
  ultimately have "m = JBool False" "p = JBool True" "h = JBool False" by blast+
  with run valid_8888 h2 show ?thesis by blast
qed

text \<open>
  C9. The overview entrypoint is registered with the price amount 0. When the lookup
  of \<open>8.8.8.8\<close> succeeds with the record \<open>sample\<close>, the handler returns an output whose
  \<open>sampleLookup\<close> holds the record's \<open>query\<close> (as \<open>ip\<close>), \<open>country\<close>, \<open>city\<close> and \<open>isp\<close>,
  together with a catalogue of endpoints that is not empty.
\<close>

theorem overview_free_sample:
  assumes f: "fetchIPData pf net ''8.8.8.8'' None = (urls, Inr sample)"
  shows "price_amount ''overview'' = Some 0 \<and>
    (\<exists>q c ci isp endpoints.
       get pf sample ''query'' = Inr q \<and> get pf sample ''country'' = Inr c \<and>
       get pf sample ''city'' = Inr ci \<and> get pf sample ''isp'' = Inr isp \<and>
       endpoints \<noteq> [] \<and>
       overview_handler pf net =
         (urls, Inr (JObj [(''output'', JObj
            [(''service'', JStr ''IP Intelligence Agent''),
             (''description'', JStr ''Real-time IP geolocation, ISP info, and timezone data''),
             (''dataSource'', JStr ''ip-api.com (live)''),
             (''sampleLookup'',
                JObj [(''ip'', q), (''country'', c), (''city'', ci), (''isp'', isp)]),
             (''endpoints'', JObj endpoints),
             (''fetchedAt'', JStr (now_iso pf))])])))"
proof -
  note r = fetchIPData_data_readable[OF f]
  obtain q where q: "get pf sample ''query'' = Inr q" using r by blast
  obtain c where c: "get pf sample ''country'' = Inr c" using r by blast
  obtain ci where ci: "get pf sample ''city'' = Inr ci" using r by blast
  obtain isp where isp: "get pf sample ''isp'' = Inr isp" using r by blast
  let ?endpoints =
    "[(''lookup'', JStr ''Single IP lookup - $0.001''),
      (''bulk'', JStr ''Bulk IP lookup (up to 10) - $0.003''),
      (''geolocate'', JStr ''Detailed geolocation - $0.002''),
      (''timezone'', JStr ''Timezone info - $0.001''),
      (''isp-info'', JStr ''ISP/Organization details - $0.002'')]"
  have run: "overview_handler pf net =
         (urls, Inr (JObj [(''output'', JObj
            [(''service'', JStr ''IP Intelligence Agent''),
             (''description'', JStr ''Real-time IP geolocation, ISP info, and timezone data''),
             (''dataSource'', JStr ''ip-api.com (live)''),
             (''sampleLookup'',
                JObj [(''ip'', q), (''country'', c), (''city'', ci), (''isp'', isp)]),
             (''endpoints'', JObj ?endpoints),
             (''fetchedAt'', JStr (now_iso pf))])]))"
    by (simp add: overview_handler_def f io_bind_def io_lift_def obj_def and_then_def str_def
        q c ci isp)
  have price: "price_amount ''overview'' = Some 0"
    by (simp add: price_amount_def entrypoint_prices_def)
  have ne: "?endpoints \<noteq> []" by simp
  show ?thesis
    apply (intro conjI exI)
         apply (rule price)
        apply (rule q)
       apply (rule c)
      apply (rule ci)
     apply (rule isp)
     apply (rule ne)
    apply (rule run)
    done
qed

theorem overview_free_sample_witness:
  "fetchIPData example_platform good_net ''8.8.8.8'' None =
     ([request_url ''8.8.8.8'' None], Inr example_record) \<and>
   price_amount ''overview'' = Some 0 \<and>
   (\<exists>endpoints. endpoints \<noteq> [] \<and>
      overview_handler example_platform good_net =
        ([request_url ''8.8.8.8'' None], Inr (JObj [(''output'', JObj
            [(''service'', JStr ''IP Intelligence Agent''),
             (''description'', JStr ''Real-time IP geolocation, ISP info, and timezone data''),
             (''dataSource'', JStr ''ip-api.com (live)''),
             (''sampleLookup'',
                JObj [(''ip'', JStr ''8.8.8.8''), (''country'', JStr ''United States''),
                      (''city'', JStr ''Ashburn''), (''isp'', JStr ''Google LLC'')]),
             (''endpoints'', JObj endpoints),
             (''fetchedAt'', JStr (now_iso example_platform))])])))"
proof -
  have h: "fetchIPData example_platform good_net ''8.8.8.8'' None =
     ([request_url ''8.8.8.8'' None], Inr example_record)"
    by (rule good_fetch)
  from overview_free_sample[OF h] h show ?thesis
    by (simp add: example_record_fields)
qed

lemma to_string_own_toString:
  "to_string pf (JObj [(''toString'', JNum (Finite 1))]) =
     Inl (Thrown ''TypeError'' (to_primitive_message pf))"
  by simp

text \<open>
  C5, as stated: \<open>fetchIPData\<close> throws exactly when the response status is outside the
  success range or the decoded payload's \<open>status\<close> is \<open>"fail"\<close>. It also throws when the
  body of a response with status 200 is not JSON: \<open>response.json()\<close> rejects, and the
  rejection is not caught.
\<close>

theorem fetchIPData_throws_on_undecodable_body:
  "garbled_net (request_url ''8.8.8.8'' None) = Resolved garbled_response \<and>
   ok garbled_response \<and>
   json garbled_response = Inl (Thrown ''SyntaxError'' ''Unexpected end of JSON input'') \<and>
   fetchIPData example_platform garbled_net ''8.8.8.8'' None =
     ([request_url ''8.8.8.8'' None],
      Inl (Thrown ''SyntaxError'' ''Unexpected end of JSON input''))"
  by (simp add: fetchIPData_def garbled_net_def garbled_response_def ok_def and_then_def)

text \<open>
  C5, amended. \<open>fetchIPData\<close> throws exactly when \<open>fetch\<close> rejects, or the response status
  is outside 200 to 299, or the body does not decode, or it decodes to \<open>null\<close>, or the
  decoded payload's \<open>status\<close> is \<open>"fail"\<close>. On a status outside the range the error is
  \<open>API error: <status>\<close>. On \<open>"fail"\<close> the error's message is the provider's \<open>message\<close>
  when that is a non-empty string, and \<open>Invalid IP address\<close> when it is absent or
  falsy; for any other message it is the string conversion of the message, and when
  the message has no string conversion the TypeError of the conversion is thrown in
  its place. A value returned is the decoded body of a response with a status in the
  range, unchanged.
\<close>

theorem fetchIPData_outcomes:
  "((\<exists>e. snd (fetchIPData pf net ip fl) = Inl e) \<longleftrightarrow>
      (case net (request_url ip fl) of
         Rejected e \<Rightarrow> True
       | Resolved response \<Rightarrow>
           \<not> ok response \<or>
           (case json response of
              Inl e \<Rightarrow> True
            | Inr data \<Rightarrow>
                data = JNull \<or> data = JUndefined \<or>
                get pf data ''status'' = Inr (JStr ''fail'')))) \<and>
   (\<forall>response. net (request_url ip fl) = Resolved response \<and> \<not> ok response \<longrightarrow>
      snd (fetchIPData pf net ip fl) =
        Inl (Error (''API error: '' @ decimal (status response)))) \<and>
   (\<forall>response data s.
      net (request_url ip fl) = Resolved response \<and> ok response \<and>
      json response = Inr data \<and> get pf data ''status'' = Inr (JStr ''fail'') \<and>
      get pf data ''message'' = Inr (JStr s) \<and> s \<noteq> [] \<longrightarrow>
      snd (fetchIPData pf net ip fl) = Inl (Error s)) \<and>
   (\<forall>response data msg.
      net (request_url ip fl) = Resolved response \<and> ok response \<and>
      json response = Inr data \<and> get pf data ''status'' = Inr (JStr ''fail'') \<and>
      get pf data ''message'' = Inr msg \<and> \<not> truthy msg \<longrightarrow>
      snd (fetchIPData pf net ip fl) = Inl (Error ''Invalid IP address'')) \<and>
   (\<forall>response data msg.
      net (request_url ip fl) = Resolved response \<and> ok response \<and>
      json response = Inr data \<and> get pf data ''status'' = Inr (JStr ''fail'') \<and>
      get pf data ''message'' = Inr msg \<and> truthy msg \<longrightarrow>
      snd (fetchIPData pf net ip fl) =
        Inl (case to_string pf msg of Inl e \<Rightarrow> e | Inr msg_text \<Rightarrow> Error msg_text)) \<and>
   (\<forall>data. snd (fetchIPData pf net ip fl) = Inr data \<longrightarrow>
      (\<exists>response. net (request_url ip fl) = Resolved response \<and> ok response \<and>
         json response = Inr data))"
proof (intro conjI allI impI)
  show "(\<exists>e. snd (fetchIPData pf net ip fl) = Inl e) \<longleftrightarrow>
      (case net (request_url ip fl) of
         Rejected e \<Rightarrow> True
       | Resolved response \<Rightarrow>
           \<not> ok response \<or>
           (case json response of
              Inl e \<Rightarrow> True
            | Inr data \<Rightarrow>
                data = JNull \<or> data = JUndefined \<or>
                get pf data ''status'' = Inr (JStr ''fail'')))"
  proof (cases "net (request_url ip fl)")
    case (Rejected e)
    then show ?thesis by (simp add: fetchIPData_def)
  next
    case (Resolved response)
    show ?thesis
    proof (cases "ok response")
      case False
      with Resolved show ?thesis by (simp add: fetchIPData_def)
    next
      case True
      show ?thesis
      proof (cases "json response")
        case (Inl e)
        with Resolved True show ?thesis by (simp add: fetchIPData_def and_then_def)
      next
        case (Inr data)
        show ?thesis
        proof (cases data)
          case (JObj kvs)
          with Resolved True Inr show ?thesis
            by (auto simp: fetchIPData_def and_then_def split: option.splits sum.splits)
        qed (use Resolved True Inr in \<open>simp_all add: fetchIPData_def and_then_def\<close>)
      qed
    qed
  qed
next
  fix response
  assume "net (request_url ip fl) = Resolved response \<and> \<not> ok response"
  then show "snd (fetchIPData pf net ip fl) =
        Inl (Error (''API error: '' @ decimal (status response)))"
    by (simp add: fetchIPData_def)
next
  fix response data s
  assume "net (request_url ip fl) = Resolved response \<and> ok response \<and>
      json response = Inr data \<and> get pf data ''status'' = Inr (JStr ''fail'') \<and>
      get pf data ''message'' = Inr (JStr s) \<and> s \<noteq> []"
  then show "snd (fetchIPData pf net ip fl) = Inl (Error s)"
    by (simp add: fetchIPData_def and_then_def js_or_def)
next
  fix response data msg
  assume "net (request_url ip fl) = Resolved response \<and> ok response \<and>
      json response = Inr data \<and> get pf data ''status'' = Inr (JStr ''fail'') \<and>
      get pf data ''message'' = Inr msg \<and> \<not> truthy msg"
  then show "snd (fetchIPData pf net ip fl) = Inl (Error ''Invalid IP address'')"
    by (simp add: fetchIPData_def and_then_def js_or_def)
next
  fix response data msg
  assume "net (request_url ip fl) = Resolved response \<and> ok response \<and>
      json response = Inr data \<and> get pf data ''status'' = Inr (JStr ''fail'') \<and>
      get pf data ''message'' = Inr msg \<and> truthy msg"
  then show "snd (fetchIPData pf net ip fl) =
        Inl (case to_string pf msg of Inl e \<Rightarrow> e | Inr msg_text \<Rightarrow> Error msg_text)"
    by (simp add: fetchIPData_def and_then_def js_or_def split: sum.splits)
next
  fix data
  assume a: "snd (fetchIPData pf net ip fl) = Inr data"
  show "\<exists>response. net (request_url ip fl) = Resolved response \<and> ok response \<and>
         json response = Inr data"
  proof (cases "net (request_url ip fl)")
    case (Rejected e)
    with a show ?thesis by (simp add: fetchIPData_def)
  next
    case (Resolved response)
    with a have "ok response \<and> json response = Inr data"
      by (auto simp: fetchIPData_def and_then_def split: if_splits sum.splits)
    with Resolved show ?thesis by simp
  qed
qed

theorem fetchIPData_outcomes_witness:
  "reserved_net (request_url ''127.0.0.1'' None) =
     Resolved \<lparr>status = 200, json = Inr reserved_record\<rparr> \<and>
   ok \<lparr>status = 200, json = Inr reserved_record\<rparr> \<and>
   get example_platform reserved_record ''status'' = Inr (JStr ''fail'') \<and>
   get example_platform reserved_record ''message'' = Inr (JStr ''reserved range'') \<and>
   snd (fetchIPData example_platform reserved_net ''127.0.0.1'' None) =
     Inl (Thrown ''Error'' ''reserved range'')"
proof -
  have h: "reserved_net (request_url ''127.0.0.1'' None) =
        Resolved \<lparr>status = 200, json = Inr reserved_record\<rparr> \<and>
      ok \<lparr>status = 200, json = Inr reserved_record\<rparr> \<and>
      json \<lparr>status = 200, json = Inr reserved_record\<rparr> = Inr reserved_record \<and>
      get example_platform reserved_record ''status'' = Inr (JStr ''fail'') \<and>
      get example_platform reserved_record ''message'' = Inr (JStr ''reserved range'')"
    by (simp add: reserved_net_def ok_def reserved_record_def)
  have h': "reserved_net (request_url ''127.0.0.1'' None) =
        Resolved \<lparr>status = 200, json = Inr reserved_record\<rparr> \<and>
      ok \<lparr>status = 200, json = Inr reserved_record\<rparr> \<and>
      json \<lparr>status = 200, json = Inr reserved_record\<rparr> = Inr reserved_record \<and>
      get example_platform reserved_record ''status'' = Inr (JStr ''fail'') \<and>
      get example_platform reserved_record ''message'' = Inr (JStr ''reserved range'') \<and>
      ''reserved range'' \<noteq> []"
    using h by simp
  note t = fetchIPData_outcomes[of example_platform reserved_net "''127.0.0.1''" None,
      THEN conjunct2, THEN conjunct2, THEN conjunct1, rule_format, OF h']
  from t h show ?thesis by (simp add: Error_def)
qed

end
